theory Spec2Isabelle
  imports Main
begin

section \<open>Modules of the tensor runtime\<close>

text \<open>
  The file \<^verbatim>\<open>cv_net/resnet.py\<close> builds its network from the primitive modules of the
  tensor runtime. A module is described here by the arguments of its constructor call,
  with every keyword argument written out (the runtime's defaults are \<^verbatim>\<open>stride=1\<close> and
  \<^verbatim>\<open>padding=0\<close>). The parameters of a convolution and of a batch normalisation carry
  the calls of the runtime's initialisers that were applied to them after the module
  was constructed, in the order of the calls: \<open>KaimingNormal mode nonlinearity\<close> is a
  call of \<^verbatim>\<open>nn.init.kaiming_normal_\<close> and \<open>Constant v\<close> a call of \<^verbatim>\<open>nn.init.constant_\<close>.
  \<open>Default\<close>, no call at all, is the parameter as the constructor leaves it. The
  values that an initialiser draws are not described.
  The type \<open>'a\<close> is the type of activation classes, the values of the table
  \<^verbatim>\<open>act_fn_by_name\<close>; \<open>Activation a\<close> is the instance that the call \<^verbatim>\<open>a()\<close> makes.
\<close>

datatype initialiser = KaimingNormal string string | Constant int

type_synonym init = "initialiser list"

abbreviation (input) Default :: init where
  "Default \<equiv> []"

datatype 'a layer =
    Conv2d int int nat nat nat bool init
      \<comment> \<open>in channels, out channels, kernel size, padding, stride, bias, weight\<close>
  | BatchNorm2d int init init
      \<comment> \<open>channels, weight (scale), bias (shift)\<close>
  | Activation 'a
  | AdaptiveAvgPool2d nat nat
  | Flatten
  | Linear int int

section \<open>The two residual blocks\<close>

datatype block_class = ResNetBlock | PreActResNetBlock

text \<open>
  An instance of \<^verbatim>\<open>ResNetBlock\<close> has the attributes \<^verbatim>\<open>net\<close> (a sequential container),
  \<^verbatim>\<open>down_sample\<close> (a convolution or \<^verbatim>\<open>None\<close>) and \<^verbatim>\<open>act_fn\<close>; an instance of
  \<^verbatim>\<open>PreActResNetBlock\<close> has \<^verbatim>\<open>net\<close> and \<^verbatim>\<open>down_sample\<close> (a sequential container or
  \<^verbatim>\<open>None\<close>).
\<close>

datatype 'a block =
    ResNetBlockObj "'a layer list" "'a layer option" "'a layer"
  | PreActResNetBlockObj "'a layer list" "'a layer list option"

definition ResNetBlock_init :: "int \<Rightarrow> 'a \<Rightarrow> bool \<Rightarrow> int \<Rightarrow> 'a block" where
  "ResNetBlock_init c_in act subsample c_out0 =
     (let c_out = (if \<not> subsample then c_in else c_out0) in
      ResNetBlockObj
        [Conv2d c_in c_out 3 1 (if subsample then 2 else 1) False Default,
         BatchNorm2d c_out Default Default,
         Activation act,
         Conv2d c_out c_out 3 1 1 False Default,
         BatchNorm2d c_out Default Default]
        (if subsample then Some (Conv2d c_in c_out 1 0 2 False Default) else None)
        (Activation act))"

definition PreActResNetBlock_init :: "int \<Rightarrow> 'a \<Rightarrow> bool \<Rightarrow> int \<Rightarrow> 'a block" where
  "PreActResNetBlock_init c_in act subsample c_out0 =
     (let c_out = (if \<not> subsample then c_in else c_out0) in
      PreActResNetBlockObj
        [BatchNorm2d c_in Default Default,
         Activation act,
         Conv2d c_in c_out 3 1 (if \<not> subsample then 1 else 2) False Default,
         BatchNorm2d c_out Default Default,
         Activation act,
         Conv2d c_out c_out 3 1 1 False Default]
        (if subsample
         then Some [BatchNorm2d c_in Default Default,
                    Activation act,
                    Conv2d c_in c_out 1 0 2 False Default]
         else None))"

text \<open>
  The primitive modules of a block, in the order in which its constructor makes them.
\<close>

fun block_modules :: "'a block \<Rightarrow> 'a layer list" where
  "block_modules (ResNetBlockObj net down_sample act) =
     net @ (case down_sample of None \<Rightarrow> [] | Some d \<Rightarrow> [d]) @ [act]"
| "block_modules (PreActResNetBlockObj net down_sample) =
     net @ (case down_sample of None \<Rightarrow> [] | Some ds \<Rightarrow> ds)"

subsection \<open>Forward computation\<close>

text \<open>
  What a primitive module computes on a tensor, and the sum of two tensors, belong to the
  runtime: they are the parameters \<open>run\<close> and \<open>add\<close>, over any type \<open>'t\<close> of tensors, and
  each may raise an error of the runtime's (a shape mismatch, say), of any type \<open>'e\<close>.
\<close>

definition and_then :: "'e + 'x \<Rightarrow> ('x \<Rightarrow> 'e + 'y) \<Rightarrow> 'e + 'y" where
  "and_then r f = (case r of Inl e \<Rightarrow> Inl e | Inr x \<Rightarrow> f x)"

fun Sequential_forward :: "('l \<Rightarrow> 't \<Rightarrow> 'e + 't) \<Rightarrow> 'l list \<Rightarrow> 't \<Rightarrow> 'e + 't" where
  "Sequential_forward run [] x = Inr x"
| "Sequential_forward run (l # ls) x = and_then (run l x) (Sequential_forward run ls)"

fun block_forward ::
  "('a layer \<Rightarrow> 't \<Rightarrow> 'e + 't) \<Rightarrow> ('t \<Rightarrow> 't \<Rightarrow> 'e + 't) \<Rightarrow> 'a block \<Rightarrow> 't \<Rightarrow> 'e + 't" where
  "block_forward run add (ResNetBlockObj net down_sample act) x =
     and_then (Sequential_forward run net x) (\<lambda>z.
     and_then (case down_sample of None \<Rightarrow> Inr x | Some d \<Rightarrow> run d x) (\<lambda>x'.
     and_then (add z x') (\<lambda>out.
     run act out)))"
| "block_forward run add (PreActResNetBlockObj net down_sample) x =
     and_then (Sequential_forward run net x) (\<lambda>z.
     and_then (case down_sample of None \<Rightarrow> Inr x | Some ds \<Rightarrow> Sequential_forward run ds x) (\<lambda>x'.
     add z x'))"

section \<open>Construction of the network\<close>

text \<open>
  The exceptions that the constructor of the network can raise. The code of
  \<^verbatim>\<open>ResNet.__init__\<close> raises three by itself: the \<^verbatim>\<open>assert\<close> on the block name (the
  statement is taken as executed, not removed by the interpreter's optimisation), a
  dictionary lookup with a missing key, and a list subscript out of range. The others
  are raised by the runtime, in a constructor of a module or in an initialiser.
\<close>

datatype error =
  AssertionError | KeyError | IndexError | ValueError | RuntimeError | TypeError

text \<open>
  The runtime is not among the sources: it is a parameter. \<open>new_module rt l\<close> is the
  exception that the runtime's constructor raises when it is called with the arguments
  that \<open>l\<close> describes, and \<open>None\<close> when it constructs the module; \<open>initialise rt l c\<close> is
  the exception that the initialiser call \<open>c\<close> raises on a parameter of the module \<open>l\<close>,
  and \<open>None\<close> when it initialises the parameter. The sequential containers are taken to
  be constructed without failure.
\<close>

record 'a runtime =
  new_module :: "'a layer \<Rightarrow> error option"
  initialise :: "'a layer \<Rightarrow> initialiser \<Rightarrow> error option"

text \<open>
  Construction is a computation over one piece of state, the number of primitive runtime
  modules constructed so far; it either raises or returns a value.
\<close>

type_synonym 'r build = "nat \<Rightarrow> (error + 'r) \<times> nat"

definition return :: "'r \<Rightarrow> 'r build" where
  "return x = (\<lambda>n. (Inr x, n))"

definition lift :: "error + 'r \<Rightarrow> 'r build" where
  "lift r = (\<lambda>n. (r, n))"

definition seq :: "'r build \<Rightarrow> ('r \<Rightarrow> 'q build) \<Rightarrow> 'q build" where
  "seq m f = (\<lambda>n. case m n of (Inl e, n') \<Rightarrow> (Inl e, n') | (Inr x, n') \<Rightarrow> f x n')"

definition construct :: "'a runtime \<Rightarrow> 'a layer \<Rightarrow> 'a layer build" where
  \<comment> \<open>a call of a constructor of the runtime\<close>
  "construct rt l =
     (\<lambda>n. case new_module rt l of Some e \<Rightarrow> (Inl e, n) | None \<Rightarrow> (Inr l, Suc n))"

fun construct_all :: "'a runtime \<Rightarrow> 'a layer list \<Rightarrow> unit build" where
  \<comment> \<open>the calls of the constructors of several modules, one after the other\<close>
  "construct_all rt [] = return ()"
| "construct_all rt (l # ls) = seq (construct rt l) (\<lambda>_. construct_all rt ls)"

definition getitem :: "'x list \<Rightarrow> int \<Rightarrow> error + 'x" where
  \<comment> \<open>the subscript \<^verbatim>\<open>xs[i]\<close> of a list, where \<open>-1\<close> is the last element\<close>
  "getitem xs i =
     (if 0 \<le> i \<and> i < int (length xs) then Inr (xs ! nat i)
      else if i < 0 \<and> - int (length xs) \<le> i then Inr (xs ! nat (int (length xs) + i))
      else Inl IndexError)"

definition lookup :: "(string \<rightharpoonup> 'v) \<Rightarrow> string \<Rightarrow> error + 'v" where
  \<comment> \<open>the subscript \<^verbatim>\<open>d[name]\<close> of one of the two tables\<close>
  "lookup d name = (case d name of Some v \<Rightarrow> Inr v | None \<Rightarrow> Inl KeyError)"

definition range_py :: "int \<Rightarrow> int list" where
  "range_py n = map int [0..<nat n]"

definition enumerate_py :: "'x list \<Rightarrow> (int \<times> 'x) list" where
  "enumerate_py xs = zip (map int [0..<length xs]) xs"

fun for_loop :: "('x \<Rightarrow> 's \<Rightarrow> 's build) \<Rightarrow> 'x list \<Rightarrow> 's \<Rightarrow> 's build" where
  "for_loop body [] s = return s"
| "for_loop body (x # xs) s = seq (body x s) (for_loop body xs)"

definition resnet_blocks_by_name :: "string \<rightharpoonup> block_class" where
  "resnet_blocks_by_name =
     [''ResNetBlock'' \<mapsto> ResNetBlock, ''PreActResNetBlock'' \<mapsto> PreActResNetBlock]"

record 'a hparams =
  num_classes :: int
  num_blocks :: "int list"
  c_hidden :: "int list"
  act_fn_name :: string
  act_fn :: 'a
  block_class :: block_class

record 'a resnet =
  hparams :: "'a hparams"
  input_net :: "'a layer list"
  blocks :: "'a block list"
  output_net :: "'a layer list"

fun block_init :: "block_class \<Rightarrow> int \<Rightarrow> 'a \<Rightarrow> bool \<Rightarrow> int \<Rightarrow> 'a block" where
  "block_init ResNetBlock = ResNetBlock_init"
| "block_init PreActResNetBlock = PreActResNetBlock_init"

text \<open>
  The call \<^verbatim>\<open>block_class(c_in, act_fn, subsample, c_out)\<close>: the constructor of the block
  calls the constructors of its modules in the order of \<open>block_modules\<close>, and an
  exception of one of them is an exception of the call.
\<close>

definition new_block ::
  "'a runtime \<Rightarrow> block_class \<Rightarrow> int \<Rightarrow> 'a \<Rightarrow> bool \<Rightarrow> int \<Rightarrow> 'a block build" where
  "new_block rt cls c_in act subsample c_out =
     (let b = block_init cls c_in act subsample c_out
      in seq (construct_all rt (block_modules b)) (\<lambda>_. return b))"

definition create_input_net :: "'a runtime \<Rightarrow> 'a hparams \<Rightarrow> 'a layer list build" where
  "create_input_net rt hp =
     (if block_class hp = PreActResNetBlock then
        seq (lift (getitem (c_hidden hp) 0)) (\<lambda>c0.
        seq (construct rt (Conv2d 3 c0 3 1 1 False Default)) (\<lambda>conv.
        return [conv]))
      else
        seq (lift (getitem (c_hidden hp) 0)) (\<lambda>c0.
        seq (construct rt (Conv2d 3 c0 3 1 1 False Default)) (\<lambda>conv.
        seq (lift (getitem (c_hidden hp) 0)) (\<lambda>c0'.
        seq (construct rt (BatchNorm2d c0' Default Default)) (\<lambda>bn.
        seq (construct rt (Activation (act_fn hp))) (\<lambda>a.
        return [conv, bn, a]))))))"

definition block_step ::
  "'a runtime \<Rightarrow> 'a hparams \<Rightarrow> int \<Rightarrow> int \<Rightarrow> 'a block list \<Rightarrow> 'a block list build" where
  \<comment> \<open>the body of the inner loop\<close>
  "block_step rt hp block_idx bc bs =
     (let subsample = (bc = 0 \<and> block_idx > 0) in
      seq (lift (if subsample then getitem (c_hidden hp) (block_idx - 1)
                 else getitem (c_hidden hp) block_idx)) (\<lambda>c_in.
      seq (lift (getitem (c_hidden hp) block_idx)) (\<lambda>c_out.
      seq (new_block rt (block_class hp) c_in (act_fn hp) subsample c_out) (\<lambda>b.
      return (bs @ [b])))))"

definition stage_step ::
  "'a runtime \<Rightarrow> 'a hparams \<Rightarrow> int \<times> int \<Rightarrow> 'a block list \<Rightarrow> 'a block list build" where
  \<comment> \<open>the body of the outer loop, which is the inner loop\<close>
  "stage_step rt hp = (\<lambda>(block_idx, block_count) bs.
     for_loop (block_step rt hp block_idx) (range_py block_count) bs)"

definition create_blocks :: "'a runtime \<Rightarrow> 'a hparams \<Rightarrow> 'a block list build" where
  "create_blocks rt hp = for_loop (stage_step rt hp) (enumerate_py (num_blocks hp)) []"

definition create_output_net :: "'a runtime \<Rightarrow> 'a hparams \<Rightarrow> 'a layer list build" where
  "create_output_net rt hp =
     seq (construct rt (AdaptiveAvgPool2d 1 1)) (\<lambda>pool.
     seq (construct rt Flatten) (\<lambda>flat.
     seq (lift (getitem (c_hidden hp) (- 1))) (\<lambda>c_last.
     seq (construct rt (Linear c_last (num_classes hp))) (\<lambda>lin.
     return [pool, flat, lin]))))"

definition create_network :: "'a runtime \<Rightarrow> 'a hparams \<Rightarrow> 'a resnet build" where
  "create_network rt hp =
     seq (create_input_net rt hp) (\<lambda>inp.
     seq (create_blocks rt hp) (\<lambda>bs.
     seq (create_output_net rt hp) (\<lambda>outp.
     return \<lparr>hparams = hp, input_net = inp, blocks = bs, output_net = outp\<rparr>)))"

subsection \<open>Initialisation of the parameters\<close>

text \<open>
  \<^verbatim>\<open>_init_params\<close> visits the modules of the network. On a convolution it calls
  \<^verbatim>\<open>kaiming_normal_\<close> on the weight, with the mode \<^verbatim>\<open>fan_out\<close> and the activation name as
  the nonlinearity; on a batch normalisation it calls \<^verbatim>\<open>constant_\<close> on the weight, with 1,
  and then on the bias, with 0. \<open>init_calls\<close> are the calls made on a module and
  \<open>init_layer\<close> is the module once its calls have returned: each call is added to the
  calls that the parameter has had. Whether the calls return is for the runtime to say,
  in \<open>init_params\<close> below.
\<close>

fun init_calls :: "string \<Rightarrow> 'a layer \<Rightarrow> initialiser list" where
  "init_calls nm (Conv2d ci co k p s b w) = [KaimingNormal ''fan_out'' nm]"
| "init_calls nm (BatchNorm2d c w b) = [Constant 1, Constant 0]"
| "init_calls nm l = []"

fun init_layer :: "string \<Rightarrow> 'a layer \<Rightarrow> 'a layer" where
  "init_layer nm (Conv2d ci co k p s b w) =
     Conv2d ci co k p s b (w @ [KaimingNormal ''fan_out'' nm])"
| "init_layer nm (BatchNorm2d c w b) = BatchNorm2d c (w @ [Constant 1]) (b @ [Constant 0])"
| "init_layer nm l = l"

fun init_block :: "string \<Rightarrow> 'a block \<Rightarrow> 'a block" where
  "init_block nm (ResNetBlockObj net down_sample act) =
     ResNetBlockObj (map (init_layer nm) net) (map_option (init_layer nm) down_sample)
       (init_layer nm act)"
| "init_block nm (PreActResNetBlockObj net down_sample) =
     PreActResNetBlockObj (map (init_layer nm) net) (map_option (map (init_layer nm)) down_sample)"

definition modules :: "'a resnet \<Rightarrow> 'a layer list" where
  \<comment> \<open>the primitive modules that \<^verbatim>\<open>self.modules()\<close> visits, in its order\<close>
  "modules m = input_net m @ concat (map block_modules (blocks m)) @ output_net m"

definition init_network :: "string \<Rightarrow> 'a resnet \<Rightarrow> 'a resnet" where
  \<comment> \<open>the network after the calls on all its modules\<close>
  "init_network nm m =
     m\<lparr>input_net := map (init_layer nm) (input_net m),
       blocks := map (init_block nm) (blocks m),
       output_net := map (init_layer nm) (output_net m)\<rparr>"

fun first_error :: "error option list \<Rightarrow> error option" where
  "first_error [] = None"
| "first_error (None # rs) = first_error rs"
| "first_error (Some e # rs) = Some e"

definition init_outcomes :: "'a runtime \<Rightarrow> string \<Rightarrow> 'a layer list \<Rightarrow> error option list" where
  \<comment> \<open>what the runtime answers to the calls on the modules, in the order of the calls\<close>
  "init_outcomes rt nm ls = concat (map (\<lambda>l. map (initialise rt l) (init_calls nm l)) ls)"

text \<open>
  The first call that raises ends the loop, and the constructor of the network, with
  its exception; when no call raises, every module has had its calls.
\<close>

definition init_params :: "'a runtime \<Rightarrow> 'a resnet \<Rightarrow> error + 'a resnet" where
  "init_params rt m =
     (let nm = act_fn_name (hparams m) in
      case first_error (init_outcomes rt nm (modules m)) of
        Some e \<Rightarrow> Inl e
      | None \<Rightarrow> Inr (init_network nm m))"

subsection \<open>The constructor of the network\<close>

text \<open>
  \<^verbatim>\<open>ResNet.__init__\<close>, with every argument given (the defaults of the signature are
  not modelled). The table \<^verbatim>\<open>act_fn_by_name\<close> is imported from \<^verbatim>\<open>cv_net.util.util\<close>: it
  is the parameter \<open>act_fn_by_name\<close> of the constructor here. The arguments of
  \<^verbatim>\<open>SimpleNamespace\<close> are evaluated from left to right, the activation before the block
  class.
\<close>

definition ResNet_init ::
  "'a runtime \<Rightarrow> (string \<rightharpoonup> 'a) \<Rightarrow> int \<Rightarrow> int list \<Rightarrow> int list \<Rightarrow> string \<Rightarrow> string
     \<Rightarrow> 'a resnet build" where
  "ResNet_init rt act_fn_by_name ncls nblocks chidden act_name block_name =
     (if block_name \<notin> dom resnet_blocks_by_name then lift (Inl AssertionError)
      else
        seq (lift (lookup act_fn_by_name act_name)) (\<lambda>act.
        seq (lift (lookup resnet_blocks_by_name block_name)) (\<lambda>cls.
        seq (create_network rt \<lparr>num_classes = ncls, num_blocks = nblocks, c_hidden = chidden,
                                 act_fn_name = act_name, act_fn = act, block_class = cls\<rparr>) (\<lambda>m.
        lift (init_params rt m)))))"

section \<open>The network as the specification describes it\<close>

text \<open>
  The definitions of this section follow the words of the specification, not the code:
  they are what the code is compared with.

  The Standard block (section 4.3 of the specification): the transform is
  Conv(c_in to c_out, kernel 3, pad 1, stride 2 if subsample else 1, no bias), Normalize(c_out),
  Activation, Conv(c_out to c_out, kernel 3, pad 1, stride 1, no bias), Normalize(c_out);
  the shortcut is the identity (no module at all) if not subsample, else one 1x1
  Conv(c_in to c_out, stride 2, no bias). The width \<open>c_out\<close> is meaningful only when
  subsample is true and is otherwise forced to \<open>c_in\<close>: that is \<open>width\<close>.
\<close>

definition width :: "int \<Rightarrow> bool \<Rightarrow> int \<Rightarrow> int" where
  "width c_in subsample c_out = (if subsample then c_out else c_in)"

definition standard_transform :: "int \<Rightarrow> 'a \<Rightarrow> bool \<Rightarrow> int \<Rightarrow> 'a layer list" where
  "standard_transform c_in act subsample c_out =
     [Conv2d c_in c_out 3 1 (if subsample then 2 else 1) False Default,
      BatchNorm2d c_out Default Default,
      Activation act,
      Conv2d c_out c_out 3 1 1 False Default,
      BatchNorm2d c_out Default Default]"

definition standard_shortcut :: "int \<Rightarrow> bool \<Rightarrow> int \<Rightarrow> 'a layer list" where
  "standard_shortcut c_in subsample c_out =
     (if \<not> subsample then [] else [Conv2d c_in c_out 1 0 2 False Default])"

text \<open>
  The Pre-Activation block (section 4.4): the transform is Normalize(c_in), Activation,
  Conv(c_in to c_out, kernel 3, pad 1, stride 2 if subsample else 1, no bias), Normalize(c_out),
  Activation, Conv(c_out to c_out, kernel 3, pad 1, stride 1, no bias); the shortcut is the
  identity if not subsample, else Normalize(c_in), Activation, Conv(c_in to c_out, 1x1,
  stride 2, no bias).
\<close>

definition preact_transform :: "int \<Rightarrow> 'a \<Rightarrow> bool \<Rightarrow> int \<Rightarrow> 'a layer list" where
  "preact_transform c_in act subsample c_out =
     [BatchNorm2d c_in Default Default,
      Activation act,
      Conv2d c_in c_out 3 1 (if subsample then 2 else 1) False Default,
      BatchNorm2d c_out Default Default,
      Activation act,
      Conv2d c_out c_out 3 1 1 False Default]"

definition preact_shortcut :: "int \<Rightarrow> 'a \<Rightarrow> bool \<Rightarrow> int \<Rightarrow> 'a layer list" where
  "preact_shortcut c_in act subsample c_out =
     (if \<not> subsample then []
      else [BatchNorm2d c_in Default Default, Activation act, Conv2d c_in c_out 1 0 2 False Default])"

text \<open>
  The flat block sequence (section 4.5, step 3): for each stage index \<open>i\<close> in
  \<open>0..len(num_blocks)-1\<close>, for each position \<open>j\<close> in \<open>0..num_blocks[i]-1\<close>, with
  \<open>subsample = (j == 0 and i > 0)\<close> and \<open>c_in = c_hidden[i-1]\<close> if subsample else
  \<open>c_hidden[i]\<close>, the block that the variant's constructor makes from
  \<open>(c_in, activation_ctor, subsample, c_out = c_hidden[i])\<close>.
\<close>

definition spec_block :: "block_class \<Rightarrow> 'a \<Rightarrow> int list \<Rightarrow> nat \<Rightarrow> nat \<Rightarrow> 'a block" where
  "spec_block cls act ch i j =
     (let subsample = (j = 0 \<and> i > 0);
          c_in = (if subsample then ch ! (i - 1) else ch ! i)
      in block_init cls c_in act subsample (ch ! i))"

definition spec_stage :: "block_class \<Rightarrow> 'a \<Rightarrow> int list \<Rightarrow> nat \<Rightarrow> int \<Rightarrow> 'a block list" where
  "spec_stage cls act ch i cnt = map (spec_block cls act ch i) [0..<nat cnt]"

definition spec_blocks :: "block_class \<Rightarrow> 'a \<Rightarrow> int list \<Rightarrow> int list \<Rightarrow> 'a block list" where
  "spec_blocks cls act nb ch = concat (map (\<lambda>i. spec_stage cls act ch i (nb ! i)) [0..<length nb])"

text \<open>
  The input adapter (step 2) and the output head (step 4), and the network made of
  the three parts.
\<close>

definition spec_input_net :: "block_class \<Rightarrow> 'a \<Rightarrow> int \<Rightarrow> 'a layer list" where
  "spec_input_net cls act c0 =
     Conv2d 3 c0 3 1 1 False Default #
     (if cls = PreActResNetBlock then [] else [BatchNorm2d c0 Default Default, Activation act])"

definition spec_output_net :: "int \<Rightarrow> int \<Rightarrow> 'a layer list" where
  "spec_output_net c_last ncls = [AdaptiveAvgPool2d 1 1, Flatten, Linear c_last ncls]"

definition spec_network :: "'a hparams \<Rightarrow> 'a resnet" where
  "spec_network hp =
     \<lparr>hparams = hp,
      input_net = spec_input_net (block_class hp) (act_fn hp) (c_hidden hp ! 0),
      blocks = spec_blocks (block_class hp) (act_fn hp) (num_blocks hp) (c_hidden hp),
      output_net = spec_output_net (last (c_hidden hp)) (num_classes hp)\<rparr>"

text \<open>
  The initialiser (section 4.6) is applied once: a convolution weight has had one call,
  the Kaiming-normal initialisation in fan-out mode for the configured activation name,
  and a normalisation layer one call on its scale, with 1, and one on its shift, with 0.
  A module is \<open>fresh\<close> when no call has been made on its parameters.
\<close>

fun initialised :: "string \<Rightarrow> 'a layer \<Rightarrow> bool" where
  "initialised nm (Conv2d ci co k p s b w) = (w = [KaimingNormal ''fan_out'' nm])"
| "initialised nm (BatchNorm2d c w b) = (w = [Constant 1] \<and> b = [Constant 0])"
| "initialised nm l = True"

fun fresh :: "'a layer \<Rightarrow> bool" where
  "fresh (Conv2d ci co k p s b w) = (w = [])"
| "fresh (BatchNorm2d c w b) = (w = [] \<and> b = [])"
| "fresh l = True"

section \<open>Auxiliary notions\<close>

text \<open>
  The number of primitive modules in a list of blocks; the enumeration of a list from
  an index \<open>k\<close> on, and the stages of the specification from a stage \<open>k\<close> on, for
  the induction over the outer loop.
\<close>

definition count_modules :: "'a block list \<Rightarrow> nat" where
  "count_modules bs = length (concat (map block_modules bs))"

definition enum_from :: "nat \<Rightarrow> 'x list \<Rightarrow> (int \<times> 'x) list" where
  "enum_from k xs = zip (map int [k..<k + length xs]) xs"

fun stages_from :: "block_class \<Rightarrow> 'a \<Rightarrow> int list \<Rightarrow> nat \<Rightarrow> int list \<Rightarrow> 'a block list" where
  "stages_from cls act ch k [] = []"
| "stages_from cls act ch k (c # cs) = spec_stage cls act ch k c @ stages_from cls act ch (Suc k) cs"

text \<open>
  The subscripts of the block loop are in range: every stage that has a block has a
  width. \<open>stages_ok\<close> is the same condition, by recursion over the stages from stage
  \<open>k\<close> on.
\<close>

definition stages_fit :: "int list \<Rightarrow> int list \<Rightarrow> bool" where
  "stages_fit nb ch = (\<forall>i<length nb. 0 < nb ! i \<longrightarrow> i < length ch)"

fun stages_ok :: "nat \<Rightarrow> nat \<Rightarrow> int list \<Rightarrow> bool" where
  "stages_ok len k [] = True"
| "stages_ok len k (c # cs) = ((0 < c \<longrightarrow> k < len) \<and> stages_ok len (Suc k) cs)"

text \<open>
  The blocks that the loop has made when a subscript fails: those of the stages before
  the first stage that has a block and no width.
\<close>

fun blocks_before :: "block_class \<Rightarrow> 'a \<Rightarrow> int list \<Rightarrow> nat \<Rightarrow> int list \<Rightarrow> 'a block list" where
  "blocks_before cls act ch k [] = []"
| "blocks_before cls act ch k (c # cs) =
     (if 0 < c \<and> length ch \<le> k then []
      else spec_stage cls act ch k c @ blocks_before cls act ch (Suc k) cs)"

text \<open>
  The runtime constructs every module of a list; it accepts every initialiser call
  that \<^verbatim>\<open>_init_params\<close> makes on the modules of a list; it constructs and initialises
  the network of the specification for given hyperparameters.
\<close>

definition accepts :: "'a runtime \<Rightarrow> 'a layer list \<Rightarrow> bool" where
  "accepts rt ls = list_all (\<lambda>l. new_module rt l = None) ls"

definition accepts_init :: "'a runtime \<Rightarrow> string \<Rightarrow> 'a layer list \<Rightarrow> bool" where
  "accepts_init rt nm ls =
     list_all (\<lambda>l. list_all (\<lambda>c. initialise rt l c = None) (init_calls nm l)) ls"

definition buildable :: "'a runtime \<Rightarrow> 'a hparams \<Rightarrow> bool" where
  "buildable rt hp =
     (accepts rt (modules (spec_network hp))
      \<and> accepts_init rt (act_fn_name hp) (modules (spec_network hp)))"

text \<open>
  Modelled from the spec: the table \<^verbatim>\<open>act_fn_by_name\<close> of \<^verbatim>\<open>cv_net.util.util\<close> is not
  among the sources. The theorems below hold for every table; the instance here, used
  where a concrete call is evaluated, has an entry for the default argument
  \<^verbatim>\<open>act_fn_name="relu"\<close> of \<^verbatim>\<open>ResNet.__init__\<close> and one for a smooth variant (the
  specification asks for the ReLU family and a smooth variant such as GELU at least).
  An activation class is written as its name.
\<close>

definition example_act_fn_by_name :: "string \<rightharpoonup> string" where
  "example_act_fn_by_name = [''relu'' \<mapsto> ''ReLU'', ''gelu'' \<mapsto> ''GELU'']"

text \<open>
  An instance of the runtime, used where a concrete call is evaluated; the theorems
  hold for every runtime. Like the tensor runtime that the code imports, it refuses a
  negative size with \<^verbatim>\<open>RuntimeError\<close> and a size that does not fit a signed 64-bit
  integer with \<^verbatim>\<open>TypeError\<close>, and its Kaiming initialiser refuses with \<^verbatim>\<open>ValueError\<close> a
  nonlinearity that is not in its table of gains, \<open>gain_names\<close>.
\<close>

definition gain_names :: "string list" where
  "gain_names =
     [''linear'', ''conv1d'', ''conv2d'', ''conv3d'', ''conv_transpose1d'',
      ''conv_transpose2d'', ''conv_transpose3d'', ''sigmoid'', ''tanh'', ''relu'',
      ''leaky_relu'', ''selu'']"

definition size_error :: "int list \<Rightarrow> error option" where
  "size_error ns =
     (if list_ex (\<lambda>n. 2 ^ 63 \<le> n) ns then Some TypeError
      else if list_ex (\<lambda>n. n < 0) ns then Some RuntimeError
      else None)"

fun example_new_module :: "'a layer \<Rightarrow> error option" where
  "example_new_module (Conv2d ci co k p s b w) = size_error [ci, co]"
| "example_new_module (BatchNorm2d c w b) = size_error [c]"
| "example_new_module (Linear i out) = size_error [i, out]"
| "example_new_module l = None"

fun example_initialise :: "'a layer \<Rightarrow> initialiser \<Rightarrow> error option" where
  "example_initialise l (KaimingNormal mode nonlinearity) =
     (if nonlinearity \<in> set gain_names then None else Some ValueError)"
| "example_initialise l (Constant v) = None"

definition example_runtime :: "'a runtime" where
  "example_runtime = \<lparr>new_module = example_new_module, initialise = example_initialise\<rparr>"

section \<open>Lemmas about the construction\<close>

subsection \<open>Running a construction\<close>

lemma return_apply: "return x n = (Inr x, n)"
  by (simp add: return_def)

lemma lift_apply: "lift r n = (r, n)"
  by (simp add: lift_def)

lemma seq_apply: "seq m f n = (case m n of (Inl e, n') \<Rightarrow> (Inl e, n') | (Inr x, n') \<Rightarrow> f x n')"
  by (simp add: seq_def)

lemma construct_apply:
  "construct rt l n = (case new_module rt l of Some e \<Rightarrow> (Inl e, n) | None \<Rightarrow> (Inr l, Suc n))"
  by (simp add: construct_def)

lemmas build_simps = return_apply lift_apply seq_apply construct_apply

lemma accepts_simps:
  "accepts rt []"
  "accepts rt (l # ls) = (new_module rt l = None \<and> accepts rt ls)"
  "accepts rt (xs @ ys) = (accepts rt xs \<and> accepts rt ys)"
  by (simp_all add: accepts_def)

lemma construct_all_ok: "accepts rt ls \<Longrightarrow> construct_all rt ls n = (Inr (), n + length ls)"
  by (induction ls arbitrary: n) (simp_all add: build_simps accepts_simps)

lemma getitem_nat: "getitem xs (int i) = (if i < length xs then Inr (xs ! i) else Inl IndexError)"
  by (simp add: getitem_def)

lemma getitem_0: "getitem xs 0 = (if xs = [] then Inl IndexError else Inr (xs ! 0))"
  by (simp add: getitem_def)

lemma getitem_pred:
  "0 < i \<Longrightarrow> getitem xs (int i - 1) = (if i - 1 < length xs then Inr (xs ! (i - 1)) else Inl IndexError)"
  using getitem_nat [of xs "i - 1"] by (simp add: of_nat_diff)

lemma getitem_last: "getitem xs (- 1) = (if xs = [] then Inl IndexError else Inr (last xs))"
  by (cases xs rule: rev_cases) (simp_all add: getitem_def nth_append)

lemma count_modules_simps:
  "count_modules [] = 0"
  "count_modules (b # bs) = length (block_modules b) + count_modules bs"
  "count_modules (bs @ cs) = count_modules bs + count_modules cs"
  by (simp_all add: count_modules_def)

lemma new_block_ok:
  "accepts rt (block_modules (block_init cls c_in act sub c_out)) \<Longrightarrow>
   new_block rt cls c_in act sub c_out n =
     (Inr (block_init cls c_in act sub c_out),
      n + length (block_modules (block_init cls c_in act sub c_out)))"
  by (simp add: new_block_def Let_def seq_apply return_apply construct_all_ok)

lemma block_step_ok:
  assumes "i < length (c_hidden hp)"
    and "accepts rt (block_modules (spec_block (block_class hp) (act_fn hp) (c_hidden hp) i j))"
  shows "block_step rt hp (int i) (int j) bs n =
     (Inr (bs @ [spec_block (block_class hp) (act_fn hp) (c_hidden hp) i j]),
      n + length (block_modules (spec_block (block_class hp) (act_fn hp) (c_hidden hp) i j)))"
proof (cases "j = 0 \<and> 0 < i")
  case True
  then have "getitem (c_hidden hp) (int i - 1) = Inr (c_hidden hp ! (i - 1))"
    using assms(1) by (simp add: getitem_pred)
  then show ?thesis
    using True assms
    by (simp add: block_step_def spec_block_def return_apply lift_apply seq_apply getitem_nat
        new_block_ok)
next
  case False
  then show ?thesis
    using assms
    by (auto simp add: block_step_def spec_block_def return_apply lift_apply seq_apply
        getitem_nat getitem_0 new_block_ok)
qed

lemma block_step_fail:
  assumes "length (c_hidden hp) \<le> i"
  shows "block_step rt hp (int i) (int j) bs n = (Inl IndexError, n)"
proof (cases "j = 0 \<and> 0 < i")
  case True
  then show ?thesis
    using assms
    by (simp add: block_step_def lift_apply seq_apply getitem_nat getitem_pred split: sum.splits)
next
  case False
  then show ?thesis
    using assms
    by (auto simp add: block_step_def lift_apply seq_apply getitem_nat getitem_0)
qed

lemma inner_loop_ok:
  assumes "i < length (c_hidden hp)"
  shows "accepts rt (concat (map block_modules
            (map (spec_block (block_class hp) (act_fn hp) (c_hidden hp) i) js))) \<Longrightarrow>
   for_loop (block_step rt hp (int i)) (map int js) bs n =
     (Inr (bs @ map (spec_block (block_class hp) (act_fn hp) (c_hidden hp) i) js),
      n + count_modules (map (spec_block (block_class hp) (act_fn hp) (c_hidden hp) i) js))"
proof (induction js arbitrary: bs n)
  case Nil
  show ?case by (simp add: return_apply count_modules_simps)
next
  case (Cons j js)
  from Cons.prems
  have 1: "accepts rt (block_modules (spec_block (block_class hp) (act_fn hp) (c_hidden hp) i j))"
    and 2: "accepts rt (concat (map block_modules
            (map (spec_block (block_class hp) (act_fn hp) (c_hidden hp) i) js)))"
    by (simp_all add: accepts_simps)
  show ?case
    by (simp add: seq_apply block_step_ok [OF assms 1] Cons.IH [OF 2] count_modules_simps)
qed

lemma inner_loop_fail:
  assumes "length (c_hidden hp) \<le> i" and "js \<noteq> []"
  shows "for_loop (block_step rt hp (int i)) (map int js) bs n = (Inl IndexError, n)"
  using assms by (cases js) (simp_all add: seq_apply block_step_fail)

lemma stage_loop_ok:
  assumes "0 < cnt \<longrightarrow> i < length (c_hidden hp)"
    and "accepts rt (concat (map block_modules
            (spec_stage (block_class hp) (act_fn hp) (c_hidden hp) i cnt)))"
  shows "for_loop (block_step rt hp (int i)) (range_py cnt) bs n =
     (Inr (bs @ spec_stage (block_class hp) (act_fn hp) (c_hidden hp) i cnt),
      n + count_modules (spec_stage (block_class hp) (act_fn hp) (c_hidden hp) i cnt))"
proof (cases "0 < cnt")
  case True
  with assms(1) have "i < length (c_hidden hp)" by simp
  from inner_loop_ok [OF this, of rt "[0..<nat cnt]" bs n] assms(2)
  show ?thesis by (simp add: range_py_def spec_stage_def)
next
  case False
  then show ?thesis
    by (simp add: range_py_def spec_stage_def return_apply count_modules_simps)
qed

lemma stage_loop_fail:
  assumes "0 < cnt" and "length (c_hidden hp) \<le> i"
  shows "for_loop (block_step rt hp (int i)) (range_py cnt) bs n = (Inl IndexError, n)"
  unfolding range_py_def
  by (rule inner_loop_fail) (use assms in auto)

lemma enum_from_simps:
  "enum_from k [] = []"
  "enum_from k (x # xs) = (int k, x) # enum_from (Suc k) xs"
proof -
  show "enum_from k [] = []" by (simp add: enum_from_def)
  have "[k..<k + length (x # xs)] = k # [Suc k..<Suc k + length xs]"
    by (simp add: upt_conv_Cons del: upt_Suc)
  then show "enum_from k (x # xs) = (int k, x) # enum_from (Suc k) xs"
    by (simp add: enum_from_def del: upt_Suc)
qed

lemma enumerate_py_enum_from: "enumerate_py xs = enum_from 0 xs"
  by (simp add: enumerate_py_def enum_from_def)

lemma outer_loop_ok:
  "stages_ok (length (c_hidden hp)) k cs \<Longrightarrow>
   accepts rt (concat (map block_modules
      (stages_from (block_class hp) (act_fn hp) (c_hidden hp) k cs))) \<Longrightarrow>
   for_loop (stage_step rt hp) (enum_from k cs) bs n =
     (Inr (bs @ stages_from (block_class hp) (act_fn hp) (c_hidden hp) k cs),
      n + count_modules (stages_from (block_class hp) (act_fn hp) (c_hidden hp) k cs))"
proof (induction cs arbitrary: k bs n)
  case Nil
  show ?case by (simp add: enum_from_simps return_apply count_modules_simps)
next
  case (Cons c cs)
  from Cons.prems(1) have 1: "0 < c \<longrightarrow> k < length (c_hidden hp)"
    and 2: "stages_ok (length (c_hidden hp)) (Suc k) cs" by simp_all
  from Cons.prems(2)
  have 3: "accepts rt (concat (map block_modules
            (spec_stage (block_class hp) (act_fn hp) (c_hidden hp) k c)))"
    and 4: "accepts rt (concat (map block_modules
      (stages_from (block_class hp) (act_fn hp) (c_hidden hp) (Suc k) cs)))"
    by (simp_all add: accepts_simps)
  show ?case
    by (simp add: enum_from_simps seq_apply stage_step_def stage_loop_ok [OF 1 3]
        Cons.IH [OF 2 4, unfolded stage_step_def] count_modules_simps)
qed

lemma outer_loop_fail:
  "\<not> stages_ok (length (c_hidden hp)) k cs \<Longrightarrow>
   accepts rt (concat (map block_modules
      (blocks_before (block_class hp) (act_fn hp) (c_hidden hp) k cs))) \<Longrightarrow>
   for_loop (stage_step rt hp) (enum_from k cs) bs n =
     (Inl IndexError,
      n + count_modules (blocks_before (block_class hp) (act_fn hp) (c_hidden hp) k cs))"
proof (induction cs arbitrary: k bs n)
  case Nil
  then show ?case by simp
next
  case (Cons c cs)
  show ?case
  proof (cases "0 < c \<and> length (c_hidden hp) \<le> k")
    case True
    then show ?thesis
      by (simp add: enum_from_simps seq_apply stage_step_def stage_loop_fail
          count_modules_simps)
  next
    case False
    then have 1: "0 < c \<longrightarrow> k < length (c_hidden hp)" by auto
    with Cons.prems(1) have 2: "\<not> stages_ok (length (c_hidden hp)) (Suc k) cs" by simp
    from Cons.prems(2) False
    have 3: "accepts rt (concat (map block_modules
            (spec_stage (block_class hp) (act_fn hp) (c_hidden hp) k c)))"
      and 4: "accepts rt (concat (map block_modules
      (blocks_before (block_class hp) (act_fn hp) (c_hidden hp) (Suc k) cs)))"
      by (simp_all add: accepts_simps)
    from False
    have bb: "blocks_before (block_class hp) (act_fn hp) (c_hidden hp) k (c # cs) =
        spec_stage (block_class hp) (act_fn hp) (c_hidden hp) k c
        @ blocks_before (block_class hp) (act_fn hp) (c_hidden hp) (Suc k) cs"
      by auto
    show ?thesis
      by (simp add: bb enum_from_simps seq_apply stage_step_def stage_loop_ok [OF 1 3]
          Cons.IH [OF 2 4, unfolded stage_step_def] count_modules_simps
          del: blocks_before.simps)
  qed
qed

lemma stages_ok_iff:
  "stages_ok len k cs \<longleftrightarrow> (\<forall>i<length cs. 0 < cs ! i \<longrightarrow> k + i < len)"
proof (induction cs arbitrary: k)
  case Nil
  show ?case by simp
next
  case (Cons c cs)
  show ?case
    by (simp add: Cons.IH All_less_Suc2 del: All_less_Suc)
qed

lemma stages_from_eq:
  "stages_from cls act ch k cs =
     concat (map (\<lambda>i. spec_stage cls act ch (k + i) (cs ! i)) [0..<length cs])"
proof (induction cs arbitrary: k)
  case Nil
  show ?case by simp
next
  case (Cons c cs)
  have "[0..<length (c # cs)] = 0 # map Suc [0..<length cs]"
    by (simp add: upt_conv_Cons map_Suc_upt del: upt_Suc)
  then show ?case
    by (simp add: Cons.IH comp_def del: upt_Suc)
qed

lemma stages_from_spec_blocks: "stages_from cls act ch 0 nb = spec_blocks cls act nb ch"
  by (simp add: stages_from_eq spec_blocks_def)

lemma stages_ok_fit: "stages_ok (length ch) 0 nb = stages_fit nb ch"
  by (simp add: stages_ok_iff stages_fit_def)

lemma stages_fit_eval: "stages_fit nb ch = stages_ok (length ch) 0 nb"
  by (simp add: stages_ok_fit)

lemma stages_fit_shorter: "length nb \<le> length ch \<Longrightarrow> stages_fit nb ch"
  by (simp add: stages_fit_def)

subsection \<open>The parts of the network\<close>

lemma create_input_net_ok:
  fixes hp :: "'a hparams"
  assumes "c_hidden hp \<noteq> []"
    and "accepts rt (spec_input_net (block_class hp) (act_fn hp) (c_hidden hp ! 0))"
  shows "create_input_net rt hp n =
     (Inr (spec_input_net (block_class hp) (act_fn hp) (c_hidden hp ! 0)),
      n + length (spec_input_net (block_class hp) (act_fn hp) (c_hidden hp ! 0) :: 'a layer list))"
  using assms
  by (auto simp add: create_input_net_def spec_input_net_def build_simps getitem_0 accepts_simps)

lemma create_input_net_fail:
  "c_hidden hp = [] \<Longrightarrow> create_input_net rt hp n = (Inl IndexError, n)"
  by (simp add: create_input_net_def lift_apply seq_apply getitem_0)

lemma create_output_net_ok:
  assumes "c_hidden hp \<noteq> []"
    and "accepts rt (spec_output_net (last (c_hidden hp)) (num_classes hp))"
  shows "create_output_net rt hp n =
     (Inr (spec_output_net (last (c_hidden hp)) (num_classes hp)), n + 3)"
  using assms
  by (simp add: create_output_net_def spec_output_net_def build_simps getitem_last accepts_simps)

lemma create_blocks_ok:
  assumes "stages_fit (num_blocks hp) (c_hidden hp)"
    and "accepts rt (concat (map block_modules
           (spec_blocks (block_class hp) (act_fn hp) (num_blocks hp) (c_hidden hp))))"
  shows "create_blocks rt hp n =
     (Inr (spec_blocks (block_class hp) (act_fn hp) (num_blocks hp) (c_hidden hp)),
      n + count_modules (spec_blocks (block_class hp) (act_fn hp) (num_blocks hp) (c_hidden hp)))"
  using outer_loop_ok [of hp 0 "num_blocks hp" rt "[]" n] assms
  by (simp add: create_blocks_def enumerate_py_enum_from stages_ok_fit stages_from_spec_blocks)

lemma create_blocks_fail:
  assumes "\<not> stages_fit (num_blocks hp) (c_hidden hp)"
    and "accepts rt (concat (map block_modules
           (blocks_before (block_class hp) (act_fn hp) (c_hidden hp) 0 (num_blocks hp))))"
  shows "create_blocks rt hp n =
     (Inl IndexError,
      n + count_modules (blocks_before (block_class hp) (act_fn hp) (c_hidden hp) 0 (num_blocks hp)))"
  using outer_loop_fail [of hp 0 "num_blocks hp" rt "[]" n] assms
  by (simp add: create_blocks_def enumerate_py_enum_from stages_ok_fit)

lemma modules_spec_network:
  fixes hp :: "'a hparams"
  shows "modules (spec_network hp) =
     spec_input_net (block_class hp) (act_fn hp) (c_hidden hp ! 0)
     @ concat (map block_modules
         (spec_blocks (block_class hp) (act_fn hp) (num_blocks hp) (c_hidden hp)))
     @ spec_output_net (last (c_hidden hp)) (num_classes hp)"
  by (simp add: modules_def spec_network_def)

lemma create_network_ok:
  fixes hp :: "'a hparams"
  assumes "c_hidden hp \<noteq> []" and "stages_fit (num_blocks hp) (c_hidden hp)"
    and "accepts rt (modules (spec_network hp))"
  shows "create_network rt hp n = (Inr (spec_network hp), n + length (modules (spec_network hp)))"
proof -
  from assms(3)
  have a1: "accepts rt (spec_input_net (block_class hp) (act_fn hp) (c_hidden hp ! 0))"
    and a2: "accepts rt (concat (map block_modules
           (spec_blocks (block_class hp) (act_fn hp) (num_blocks hp) (c_hidden hp))))"
    and a3: "accepts rt (spec_output_net (last (c_hidden hp)) (num_classes hp))"
    by (simp_all add: modules_spec_network accepts_simps)
  have len: "length (modules (spec_network hp)) =
      length (spec_input_net (block_class hp) (act_fn hp) (c_hidden hp ! 0) :: 'a layer list)
      + count_modules (spec_blocks (block_class hp) (act_fn hp) (num_blocks hp) (c_hidden hp))
      + 3"
    by (simp add: modules_spec_network count_modules_def spec_output_net_def)
  have "create_network rt hp n =
      (Inr (spec_network hp),
       n + (length (spec_input_net (block_class hp) (act_fn hp) (c_hidden hp ! 0) :: 'a layer list)
            + count_modules (spec_blocks (block_class hp) (act_fn hp) (num_blocks hp) (c_hidden hp))
            + 3))"
    by (simp add: create_network_def seq_apply return_apply create_input_net_ok [OF assms(1) a1]
        create_blocks_ok [OF assms(2) a2] create_output_net_ok [OF assms(1) a3] spec_network_def)
  then show ?thesis by (simp only: len)
qed

lemma create_network_empty:
  "c_hidden hp = [] \<Longrightarrow> create_network rt hp n = (Inl IndexError, n)"
  by (simp add: create_network_def seq_apply create_input_net_fail)

lemma create_network_fail:
  fixes hp :: "'a hparams"
  assumes "c_hidden hp \<noteq> []" and "\<not> stages_fit (num_blocks hp) (c_hidden hp)"
    and "accepts rt (spec_input_net (block_class hp) (act_fn hp) (c_hidden hp ! 0))"
    and "accepts rt (concat (map block_modules
           (blocks_before (block_class hp) (act_fn hp) (c_hidden hp) 0 (num_blocks hp))))"
  shows "create_network rt hp n =
     (Inl IndexError,
      n + length (spec_input_net (block_class hp) (act_fn hp) (c_hidden hp ! 0) :: 'a layer list)
        + count_modules
            (blocks_before (block_class hp) (act_fn hp) (c_hidden hp) 0 (num_blocks hp)))"
  by (simp add: create_network_def seq_apply create_input_net_ok [OF assms(1,3)]
      create_blocks_fail [OF assms(2,4)])

subsection \<open>Initialisation of the parameters, step by step\<close>

lemma first_error_accepted:
  "list_all (\<lambda>c. f c = None) cs \<Longrightarrow> first_error (map f cs @ rs) = first_error rs"
  by (induction cs) simp_all

lemma init_outcomes_accepted:
  "accepts_init rt nm ls \<Longrightarrow> first_error (init_outcomes rt nm ls) = None"
  by (induction ls) (simp_all add: accepts_init_def init_outcomes_def first_error_accepted)

lemma init_params_ok:
  "accepts_init rt (act_fn_name (hparams m)) (modules m) \<Longrightarrow>
   init_params rt m = Inr (init_network (act_fn_name (hparams m)) m)"
  by (simp add: init_params_def Let_def init_outcomes_accepted)

lemma init_params_returns:
  "init_params rt m = Inr m' \<Longrightarrow>
   m' = init_network (act_fn_name (hparams m)) m
   \<and> first_error (init_outcomes rt (act_fn_name (hparams m)) (modules m)) = None"
  by (auto simp add: init_params_def Let_def split: option.splits)

lemma init_layer_initialised: "fresh l \<Longrightarrow> initialised nm (init_layer nm l)"
  by (cases l) simp_all

lemma block_modules_init_block:
  "block_modules (init_block nm b) = map (init_layer nm) (block_modules b)"
  by (cases b) (simp_all split: option.splits)

lemma modules_init_network:
  "modules (init_network nm m) = map (init_layer nm) (modules m)"
  by (simp add: modules_def init_network_def map_concat comp_def block_modules_init_block)

lemma blocks_init_network: "blocks (init_network nm m) = map (init_block nm) (blocks m)"
  by (simp add: init_network_def)

lemma input_net_init_network: "input_net (init_network nm m) = map (init_layer nm) (input_net m)"
  by (simp add: init_network_def)

subsection \<open>Fresh modules\<close>

lemma for_loop_invariant:
  assumes "\<And>x s n s' n'. P s \<Longrightarrow> body x s n = (Inr s', n') \<Longrightarrow> P s'"
  shows "P s \<Longrightarrow> for_loop body xs s n = (Inr s', n') \<Longrightarrow> P s'"
proof (induction xs arbitrary: s n)
  case Nil
  then show ?case by (simp add: return_apply)
next
  case (Cons x xs)
  from Cons.prems(2) obtain s1 n1 where 1: "body x s n = (Inr s1, n1)"
    and 2: "for_loop body xs s1 n1 = (Inr s', n')"
    by (auto simp add: seq_apply split: prod.splits sum.splits)
  from assms [OF Cons.prems(1) 1] have "P s1" .
  from Cons.IH [OF this 2] show ?case .
qed

lemma fresh_block_init: "list_all fresh (block_modules (block_init cls c_in act sub c_out))"
  by (cases cls) (simp_all add: ResNetBlock_init_def PreActResNetBlock_init_def Let_def)

lemma new_block_returns:
  "new_block rt cls c_in act sub c_out n = (Inr b, n') \<Longrightarrow> b = block_init cls c_in act sub c_out"
  by (auto simp add: new_block_def Let_def seq_apply return_apply split: prod.splits sum.splits)

lemma block_step_fresh:
  assumes "list_all fresh (concat (map block_modules bs))"
    and "block_step rt hp i j bs n = (Inr bs', n')"
  shows "list_all fresh (concat (map block_modules bs'))"
proof -
  from assms(2) obtain c_in c_out b n1 where
    "new_block rt (block_class hp) c_in (act_fn hp) (j = 0 \<and> 0 < i) c_out n = (Inr b, n1)"
    and bs': "bs' = bs @ [b]"
    by (auto simp add: block_step_def Let_def seq_apply lift_apply return_apply
        split: prod.splits sum.splits)
  from new_block_returns [OF this(1)] have "list_all fresh (block_modules b)"
    by (simp add: fresh_block_init)
  with assms(1) bs' show ?thesis by simp
qed

lemma stage_step_fresh:
  assumes "list_all fresh (concat (map block_modules bs))"
    and "stage_step rt hp p bs n = (Inr bs', n')"
  shows "list_all fresh (concat (map block_modules bs'))"
proof -
  obtain i c where p: "p = (i, c)" by (cases p)
  from assms(2) have "for_loop (block_step rt hp i) (range_py c) bs n = (Inr bs', n')"
    by (simp add: stage_step_def p)
  from for_loop_invariant [where P = "\<lambda>bs. list_all fresh (concat (map block_modules bs))",
      OF block_step_fresh assms(1) this]
  show ?thesis .
qed

lemma create_blocks_fresh:
  assumes "create_blocks rt hp n = (Inr bs, n')"
  shows "list_all fresh (concat (map block_modules bs))"
proof -
  have "list_all fresh (concat (map block_modules ([] :: 'a block list)))" by simp
  from for_loop_invariant [where P = "\<lambda>bs. list_all fresh (concat (map block_modules bs))",
      OF stage_step_fresh this assms [unfolded create_blocks_def]]
  show ?thesis .
qed

lemma create_input_net_fresh:
  "create_input_net rt hp n = (Inr ls, n') \<Longrightarrow> list_all fresh ls"
  by (auto simp add: create_input_net_def build_simps
      split: if_splits prod.splits sum.splits option.splits)

lemma create_output_net_fresh:
  "create_output_net rt hp n = (Inr ls, n') \<Longrightarrow> list_all fresh ls"
  by (auto simp add: create_output_net_def build_simps
      split: if_splits prod.splits sum.splits option.splits)

lemma create_network_returns:
  assumes "create_network rt hp n = (Inr m, n')"
  shows "hparams m = hp \<and> list_all fresh (modules m)"
proof -
  from assms obtain inp n1 bs n2 outp where
    1: "create_input_net rt hp n = (Inr inp, n1)"
    and 2: "create_blocks rt hp n1 = (Inr bs, n2)"
    and 3: "create_output_net rt hp n2 = (Inr outp, n')"
    and m: "m = \<lparr>hparams = hp, input_net = inp, blocks = bs, output_net = outp\<rparr>"
    by (auto simp add: create_network_def seq_apply return_apply split: prod.splits sum.splits)
  from create_input_net_fresh [OF 1] create_blocks_fresh [OF 2] create_output_net_fresh [OF 3]
  show ?thesis by (simp add: m modules_def)
qed

subsection \<open>The constructor as a whole\<close>

lemma ResNet_init_known:
  assumes "tbl an = Some act" and "resnet_blocks_by_name bn = Some cls"
  shows "ResNet_init rt tbl ncls nb ch an bn n =
     (case create_network rt \<lparr>num_classes = ncls, num_blocks = nb, c_hidden = ch,
                                 act_fn_name = an, act_fn = act, block_class = cls\<rparr> n of
        (Inl e, n') \<Rightarrow> (Inl e, n') | (Inr m, n') \<Rightarrow> (init_params rt m, n'))"
  using assms
  by (auto simp add: ResNet_init_def return_apply lift_apply seq_apply lookup_def
      split: prod.splits sum.splits)

lemma ResNet_init_ok:
  fixes act :: 'a
  assumes "tbl an = Some act" and "resnet_blocks_by_name bn = Some cls"
    and "ch \<noteq> []" and "stages_fit nb ch"
    and "buildable rt \<lparr>num_classes = ncls, num_blocks = nb, c_hidden = ch,
                        act_fn_name = an, act_fn = act, block_class = cls\<rparr>"
  shows "ResNet_init rt tbl ncls nb ch an bn n =
     (Inr (init_network an (spec_network \<lparr>num_classes = ncls, num_blocks = nb, c_hidden = ch,
                              act_fn_name = an, act_fn = act, block_class = cls\<rparr>)),
      n + length (modules (spec_network \<lparr>num_classes = ncls, num_blocks = nb, c_hidden = ch,
                              act_fn_name = an, act_fn = act, block_class = cls\<rparr>)))"
proof -
  let ?hp = "\<lparr>num_classes = ncls, num_blocks = nb, c_hidden = ch,
               act_fn_name = an, act_fn = act, block_class = cls\<rparr>"
  from assms(5) have a: "accepts rt (modules (spec_network ?hp))"
    and i: "accepts_init rt an (modules (spec_network ?hp))"
    by (simp_all add: buildable_def)
  have c: "create_network rt ?hp n = (Inr (spec_network ?hp), n + length (modules (spec_network ?hp)))"
    using assms(3,4) a by (simp add: create_network_ok)
  have "hparams (spec_network ?hp) = ?hp" by (simp add: spec_network_def)
  with i have "init_params rt (spec_network ?hp) = Inr (init_network an (spec_network ?hp))"
    by (simp add: init_params_ok)
  with c show ?thesis
    by (simp add: ResNet_init_known [of tbl an act bn cls, OF assms(1,2)])
qed

lemma ResNet_init_IndexError:
  fixes act :: 'a
  assumes "tbl an = Some act" and "resnet_blocks_by_name bn = Some cls"
    and "ch \<noteq> []" and "\<not> stages_fit nb ch"
    and "accepts rt (spec_input_net cls act (ch ! 0))"
    and "accepts rt (concat (map block_modules (blocks_before cls act ch 0 nb)))"
  shows "ResNet_init rt tbl ncls nb ch an bn n =
     (Inl IndexError,
      n + length (spec_input_net cls act (ch ! 0) :: 'a layer list)
        + count_modules (blocks_before cls act ch 0 nb))"
  using create_network_fail [of "\<lparr>num_classes = ncls, num_blocks = nb, c_hidden = ch,
               act_fn_name = an, act_fn = act, block_class = cls\<rparr>" rt n] assms(3-6)
  by (simp add: ResNet_init_known [of tbl an act bn cls, OF assms(1,2)])

lemma ResNet_init_empty:
  assumes "tbl an = Some act" and "resnet_blocks_by_name bn = Some cls"
  shows "ResNet_init rt tbl ncls nb [] an bn n = (Inl IndexError, n)"
  by (simp add: ResNet_init_known [of tbl an act bn cls, OF assms] create_network_empty)

lemma hd_spec_blocks:
  assumes "nb \<noteq> []" and "0 < nb ! 0"
  shows "hd (spec_blocks cls act nb ch) = block_init cls (ch ! 0) act False (ch ! 0)"
proof -
  from assms obtain c cs where nb: "nb = c # cs" and c: "0 < c" by (cases nb) auto
  from c have "[0..<nat c] = 0 # [Suc 0..<nat c]" by (simp add: upt_conv_Cons)
  then have "spec_stage cls act ch 0 c =
      spec_block cls act ch 0 0 # map (spec_block cls act ch 0) [Suc 0..<nat c]"
    by (simp add: spec_stage_def)
  then show ?thesis
    by (simp add: stages_from_spec_blocks [symmetric] nb spec_block_def)
qed

lemma spec_blocks_skip:
  assumes "i < length nb" and "nb ! i = 0"
  shows "spec_blocks cls act nb ch =
     concat (map (\<lambda>s. spec_stage cls act ch s (nb ! s)) ([0..<i] @ [Suc i..<length nb]))"
proof -
  from assms(1) have "[0..<length nb] = [0..<i] @ i # [Suc i..<length nb]"
    by (metis upt_conv_Cons upt_add_eq_append le_add_diff_inverse less_imp_le_nat zero_le)
  moreover have "spec_stage cls act ch i (nb ! i) = []"
    by (simp add: spec_stage_def assms(2))
  ultimately show ?thesis by (simp add: spec_blocks_def)
qed

lemma example_table_simps:
  "example_act_fn_by_name ''relu'' = Some ''ReLU''"
  "example_act_fn_by_name ''gelu'' = Some ''GELU''"
  "example_act_fn_by_name ''sigmoid'' = None"
  by (simp_all add: example_act_fn_by_name_def)

lemma blocks_by_name_simps:
  "resnet_blocks_by_name ''ResNetBlock'' = Some ResNetBlock"
  "resnet_blocks_by_name ''PreActResNetBlock'' = Some PreActResNetBlock"
  "resnet_blocks_by_name ''nonexistent'' = None"
  by (simp_all add: resnet_blocks_by_name_def)

lemma example_runtime_simps:
  "new_module example_runtime = example_new_module"
  "initialise example_runtime = example_initialise"
  by (simp_all add: example_runtime_def)

section \<open>The claims\<close>

subsection \<open>Forward computation of the blocks\<close>

text \<open>
  Claim C3. For every input \<open>x\<close>, the forward computation of a Standard block is
  \<open>Activation(transform(x) + shortcut(x))\<close>: the transform of the specification runs first,
  then the shortcut, then the sum, and the activation is applied to the sum. The shortcut
  is the identity (the empty sequence of modules) when \<open>subsample\<close> is false and the single
  1x1 convolution from \<open>c_in\<close> to \<open>c_out\<close> with stride 2 and no bias when it is true. This
  holds for the block as its constructor makes it and for the block after the
  initialisation of its parameters, whatever the runtime computes.
\<close>

theorem ResNetBlock_forward:
  "block_forward run add (ResNetBlock_init c_in act subsample c_out) x =
     and_then (Sequential_forward run
                 (standard_transform c_in act subsample (width c_in subsample c_out)) x) (\<lambda>t.
     and_then (Sequential_forward run
                 (standard_shortcut c_in subsample (width c_in subsample c_out)) x) (\<lambda>s.
     and_then (add t s) (run (Activation act))))
   \<and> block_forward run add (init_block nm (ResNetBlock_init c_in act subsample c_out)) x =
     and_then (Sequential_forward run
                 (map (init_layer nm)
                    (standard_transform c_in act subsample (width c_in subsample c_out))) x) (\<lambda>t.
     and_then (Sequential_forward run
                 (map (init_layer nm)
                    (standard_shortcut c_in subsample (width c_in subsample c_out))) x) (\<lambda>s.
     and_then (add t s) (run (Activation act))))"
  by (cases subsample)
     (simp_all add: ResNetBlock_init_def standard_transform_def standard_shortcut_def width_def
        and_then_def split: sum.splits)

theorem ResNetBlock_forward_witness:
  "block_forward (\<lambda>l x. Inr (x @ [l])) (\<lambda>a b. Inr (a @ b))
     (ResNetBlock_init 12 ''ReLU'' True 32) []
   = (Inr [Conv2d 12 32 3 1 2 False Default, BatchNorm2d 32 Default Default, Activation ''ReLU'',
           Conv2d 32 32 3 1 1 False Default, BatchNorm2d 32 Default Default,
           Conv2d 12 32 1 0 2 False Default,
           Activation ''ReLU''] :: unit + string layer list)"
  using ResNetBlock_forward [of "\<lambda>l x. (Inr (x @ [l]) :: unit + string layer list)" "\<lambda>a b. Inr (a @ b)" 12 "''ReLU''" True 32 "[]" "''relu''"]
  by (simp add: standard_transform_def standard_shortcut_def width_def and_then_def)

text \<open>
  Claim C4. For every input \<open>x\<close>, the forward computation of a Pre-Activation block is
  \<open>transform(x) + shortcut(x)\<close>, and nothing is applied to the sum. The shortcut is the
  identity when \<open>subsample\<close> is false and Normalize(c_in), Activation, 1x1 convolution from
  \<open>c_in\<close> to \<open>c_out\<close> with stride 2 and no bias when it is true.
\<close>

theorem PreActResNetBlock_forward:
  "block_forward run add (PreActResNetBlock_init c_in act subsample c_out) x =
     and_then (Sequential_forward run
                 (preact_transform c_in act subsample (width c_in subsample c_out)) x) (\<lambda>t.
     and_then (Sequential_forward run
                 (preact_shortcut c_in act subsample (width c_in subsample c_out)) x) (\<lambda>s.
     add t s))
   \<and> block_forward run add (init_block nm (PreActResNetBlock_init c_in act subsample c_out)) x =
     and_then (Sequential_forward run
                 (map (init_layer nm)
                    (preact_transform c_in act subsample (width c_in subsample c_out))) x) (\<lambda>t.
     and_then (Sequential_forward run
                 (map (init_layer nm)
                    (preact_shortcut c_in act subsample (width c_in subsample c_out))) x) (\<lambda>s.
     add t s))"
  by (cases subsample)
     (simp_all add: PreActResNetBlock_init_def preact_transform_def preact_shortcut_def width_def
        and_then_def split: sum.splits)

theorem PreActResNetBlock_forward_witness:
  "block_forward (\<lambda>l x. Inr (x @ [l])) (\<lambda>a b. Inr (a @ b))
     (PreActResNetBlock_init 12 ''ReLU'' True 32) []
   = (Inr [BatchNorm2d 12 Default Default, Activation ''ReLU'', Conv2d 12 32 3 1 2 False Default,
           BatchNorm2d 32 Default Default, Activation ''ReLU'', Conv2d 32 32 3 1 1 False Default,
           BatchNorm2d 12 Default Default, Activation ''ReLU'', Conv2d 12 32 1 0 2 False Default]
        :: unit + string layer list)"
  using PreActResNetBlock_forward
          [of "\<lambda>l x. (Inr (x @ [l]) :: unit + string layer list)" "\<lambda>a b. Inr (a @ b)" 12 "''ReLU''" True 32 "[]" "''relu''"]
  by (simp add: preact_transform_def preact_shortcut_def width_def and_then_def)

subsection \<open>Unknown names\<close>

text \<open>
  Claim C5. A call of the constructor with a block name that is not a key of
  \<^verbatim>\<open>resnet_blocks_by_name\<close> fails, whatever the other arguments and the runtime are, with
  the error of the \<^verbatim>\<open>assert\<close> on the block name (Python's \<^verbatim>\<open>AssertionError\<close>, which is
  what the specification calls UnknownBlockVariant); the check is the first step, and
  the count of constructed modules is unchanged: nothing was allocated.
\<close>

theorem unknown_block_name:
  "bn \<notin> dom resnet_blocks_by_name \<Longrightarrow>
   ResNet_init rt tbl ncls nb ch an bn n = (Inl AssertionError, n)"
  by (simp add: ResNet_init_def lift_apply)

theorem unknown_block_name_witness:
  "''nonexistent'' \<notin> dom resnet_blocks_by_name \<and>
   ResNet_init example_runtime example_act_fn_by_name 10 [3, 3, 3] [12, 32, 64] ''relu''
     ''nonexistent'' 0
     = (Inl AssertionError, 0)"
proof -
  have h: "''nonexistent'' \<notin> dom resnet_blocks_by_name"
    by (simp add: dom_def blocks_by_name_simps)
  from h unknown_block_name [OF h] show ?thesis by simp
qed

text \<open>
  Claim C8. With an activation name that is not a key of \<^verbatim>\<open>act_fn_by_name\<close>, the
  resolution of the activation, the subscript \<^verbatim>\<open>act_fn_by_name[act_fn_name]\<close>, fails with the
  error of a missing key (Python's \<^verbatim>\<open>KeyError\<close>, which is what the specification calls
  UnknownActivation). The constructor fails with this error and constructs nothing; only
  when the block name is unknown too does the \<^verbatim>\<open>assert\<close> before it fail first.
\<close>

theorem unknown_activation_name:
  "tbl an = None \<Longrightarrow>
   lookup tbl an = Inl KeyError \<and>
   ResNet_init rt tbl ncls nb ch an bn n =
     (Inl (if bn \<in> dom resnet_blocks_by_name then KeyError else AssertionError), n)"
  by (simp add: ResNet_init_def lookup_def lift_apply seq_apply)

theorem unknown_activation_name_witness:
  "example_act_fn_by_name ''sigmoid'' = None \<and>
   lookup example_act_fn_by_name ''sigmoid'' = Inl KeyError \<and>
   ResNet_init example_runtime example_act_fn_by_name 10 [3, 3, 3] [12, 32, 64] ''sigmoid''
     ''ResNetBlock'' 0
     = (Inl KeyError, 0)"
proof -
  have h: "example_act_fn_by_name ''sigmoid'' = None"
    by (simp add: example_act_fn_by_name_def)
  have d: "''ResNetBlock'' \<in> dom resnet_blocks_by_name"
    by (simp add: dom_def blocks_by_name_simps)
  from h d unknown_activation_name [of example_act_fn_by_name "''sigmoid''", OF h,
      of example_runtime 10 "[3, 3, 3]" "[12, 32, 64]" "''ResNetBlock''" 0]
  show ?thesis by simp
qed

subsection \<open>Sequences of different lengths\<close>

text \<open>
  Claim C1 as it is stated does not hold of the code, which compares the lengths of
  \<^verbatim>\<open>num_blocks\<close> and \<^verbatim>\<open>c_hidden\<close> nowhere. The call with \<^verbatim>\<open>num_blocks=[3,3]\<close> and
  \<^verbatim>\<open>c_hidden=[12,32,64]\<close>, the example of the specification, does not fail: it returns a
  network.
\<close>

theorem length_mismatch_counterexample:
  "length [3, 3 :: int] \<noteq> length [12, 32, 64 :: int]
   \<and> \<not> isl (fst (ResNet_init example_runtime example_act_fn_by_name 10 [3, 3] [12, 32, 64]
                      ''relu'' ''ResNetBlock'' 0))"
  by code_simp

text \<open>
  Claim C1, as amended. For a call with known names and sequences of different lengths
  there is no check of the lengths.
  \<^item> When \<^verbatim>\<open>num_blocks\<close> is the shorter sequence, \<^verbatim>\<open>c_hidden\<close> is not empty and every
    stage that has a block has a width.
  \<^item> When \<^verbatim>\<open>c_hidden\<close> is not empty, every stage that has a block has a width and the
    runtime constructs and initialises the modules, the call returns the network of the
    specification's algorithm (the blocks of the stages of \<^verbatim>\<open>num_blocks\<close>, the head on
    \<^verbatim>\<open>c_hidden[-1]\<close>).
  \<^item> When \<^verbatim>\<open>c_hidden\<close> is not empty and some stage \<open>i \<ge> len(c_hidden)\<close> has
    \<open>num_blocks[i] > 0\<close>, the input adapter is constructed, then the block loop
    constructs the blocks of the stages before the first such stage and raises the
    error of a list subscript out of range (Python's \<^verbatim>\<open>IndexError\<close>), which is the error
    of the call (provided that the runtime constructs these modules); no network is
    returned.
  \<^item> When \<^verbatim>\<open>c_hidden\<close> is empty the call fails with the same error before anything is
    constructed.
\<close>

theorem length_mismatch_unchecked:
  fixes act :: 'a
  assumes "tbl an = Some act" and "resnet_blocks_by_name bn = Some cls"
    and "length nb \<noteq> length ch"
  shows "(length nb < length ch \<longrightarrow> ch \<noteq> [] \<and> stages_fit nb ch)
     \<and> (ch \<noteq> [] \<and> stages_fit nb ch
          \<and> buildable rt \<lparr>num_classes = ncls, num_blocks = nb, c_hidden = ch,
                            act_fn_name = an, act_fn = act, block_class = cls\<rparr> \<longrightarrow>
          ResNet_init rt tbl ncls nb ch an bn n =
            (Inr (init_network an (spec_network
                    \<lparr>num_classes = ncls, num_blocks = nb, c_hidden = ch,
                       act_fn_name = an, act_fn = act, block_class = cls\<rparr>)),
             n + length (modules (spec_network
                    \<lparr>num_classes = ncls, num_blocks = nb, c_hidden = ch,
                       act_fn_name = an, act_fn = act, block_class = cls\<rparr>))))
     \<and> (ch \<noteq> [] \<and> \<not> stages_fit nb ch
          \<and> accepts rt (spec_input_net cls act (ch ! 0))
          \<and> accepts rt (concat (map block_modules (blocks_before cls act ch 0 nb))) \<longrightarrow>
          create_input_net rt \<lparr>num_classes = ncls, num_blocks = nb, c_hidden = ch,
                                 act_fn_name = an, act_fn = act, block_class = cls\<rparr> n
            = (Inr (spec_input_net cls act (ch ! 0)),
               n + length (spec_input_net cls act (ch ! 0) :: 'a layer list))
          \<and> create_blocks rt \<lparr>num_classes = ncls, num_blocks = nb, c_hidden = ch,
                                 act_fn_name = an, act_fn = act, block_class = cls\<rparr>
               (n + length (spec_input_net cls act (ch ! 0) :: 'a layer list))
            = (Inl IndexError,
               n + length (spec_input_net cls act (ch ! 0) :: 'a layer list)
                 + count_modules (blocks_before cls act ch 0 nb))
          \<and> ResNet_init rt tbl ncls nb ch an bn n
            = (Inl IndexError,
               n + length (spec_input_net cls act (ch ! 0) :: 'a layer list)
                 + count_modules (blocks_before cls act ch 0 nb)))
     \<and> (ch = [] \<longrightarrow> ResNet_init rt tbl ncls nb ch an bn n = (Inl IndexError, n))"
proof -
  let ?hp = "\<lparr>num_classes = ncls, num_blocks = nb, c_hidden = ch,
               act_fn_name = an, act_fn = act, block_class = cls\<rparr>"
  have 1: "ch \<noteq> [] \<and> stages_fit nb ch" if "length nb < length ch"
    using that by (auto simp add: stages_fit_shorter)
  have 2: "ResNet_init rt tbl ncls nb ch an bn n =
            (Inr (init_network an (spec_network ?hp)), n + length (modules (spec_network ?hp)))"
    if "ch \<noteq> [] \<and> stages_fit nb ch \<and> buildable rt ?hp"
    using that by (simp add: ResNet_init_ok [of tbl an act bn cls, OF assms(1,2)])
  have 3: "create_input_net rt ?hp n
            = (Inr (spec_input_net cls act (ch ! 0)),
               n + length (spec_input_net cls act (ch ! 0) :: 'a layer list))
          \<and> create_blocks rt ?hp (n + length (spec_input_net cls act (ch ! 0) :: 'a layer list))
            = (Inl IndexError,
               n + length (spec_input_net cls act (ch ! 0) :: 'a layer list)
                 + count_modules (blocks_before cls act ch 0 nb))
          \<and> ResNet_init rt tbl ncls nb ch an bn n
            = (Inl IndexError,
               n + length (spec_input_net cls act (ch ! 0) :: 'a layer list)
                 + count_modules (blocks_before cls act ch 0 nb))"
    if a: "ch \<noteq> [] \<and> \<not> stages_fit nb ch
          \<and> accepts rt (spec_input_net cls act (ch ! 0))
          \<and> accepts rt (concat (map block_modules (blocks_before cls act ch 0 nb)))"
  proof (intro conjI)
    from a show "create_input_net rt ?hp n
            = (Inr (spec_input_net cls act (ch ! 0)),
               n + length (spec_input_net cls act (ch ! 0) :: 'a layer list))"
      using create_input_net_ok [of ?hp rt n] by simp
    from a show "create_blocks rt ?hp (n + length (spec_input_net cls act (ch ! 0) :: 'a layer list))
            = (Inl IndexError,
               n + length (spec_input_net cls act (ch ! 0) :: 'a layer list)
                 + count_modules (blocks_before cls act ch 0 nb))"
      using create_blocks_fail [of ?hp rt] by simp
    from a show "ResNet_init rt tbl ncls nb ch an bn n
            = (Inl IndexError,
               n + length (spec_input_net cls act (ch ! 0) :: 'a layer list)
                 + count_modules (blocks_before cls act ch 0 nb))"
      by (simp add: ResNet_init_IndexError [of tbl an act bn cls, OF assms(1,2)])
  qed
  have 4: "ResNet_init rt tbl ncls nb ch an bn n = (Inl IndexError, n)" if "ch = []"
    using that by (simp add: ResNet_init_empty [of tbl an act bn cls, OF assms(1,2)])
  from 1 2 3 4 show ?thesis by blast
qed

theorem length_mismatch_unchecked_witness:
  "\<not> isl (fst (ResNet_init example_runtime example_act_fn_by_name 10 [3, 3] [12, 32, 64]
                 ''relu'' ''ResNetBlock'' 0))
   \<and> ResNet_init example_runtime example_act_fn_by_name 10 [1, 1, 1] [12, 32] ''relu''
            ''ResNetBlock'' 0 = (Inl IndexError, 16)
   \<and> ResNet_init example_runtime example_act_fn_by_name 10 [1] [] ''relu'' ''ResNetBlock'' 0
        = (Inl IndexError, 0)"
proof -
  have fit: "stages_fit [3, 3] [12, 32, 64]" and unfit: "\<not> stages_fit [1, 1, 1] [12, 32]"
    by (simp_all add: stages_fit_eval)
  have b: "buildable (example_runtime :: string runtime)
      \<lparr>num_classes = 10, num_blocks = [3, 3], c_hidden = [12, 32, 64],
         act_fn_name = ''relu'', act_fn = ''ReLU'', block_class = ResNetBlock\<rparr>"
    by code_simp
  have a1: "accepts (example_runtime :: string runtime)
      (spec_input_net ResNetBlock ''ReLU'' ([12, 32] ! 0))"
    by code_simp
  have a2: "accepts (example_runtime :: string runtime)
      (concat (map block_modules (blocks_before ResNetBlock ''ReLU'' [12, 32] 0 [1, 1, 1])))"
    by code_simp
  have k: "length (spec_input_net ResNetBlock ''ReLU'' ([12, 32] ! 0) :: string layer list)
      + count_modules (blocks_before ResNetBlock ''ReLU'' [12, 32] 0 [1, 1, 1]) = 16"
    by code_simp
  from fit unfit b a1 a2 k
    length_mismatch_unchecked [of example_act_fn_by_name "''relu''" "''ReLU''"
      "''ResNetBlock''" ResNetBlock "[3, 3]" "[12, 32, 64]" example_runtime 10 0]
    length_mismatch_unchecked [of example_act_fn_by_name "''relu''" "''ReLU''"
      "''ResNetBlock''" ResNetBlock "[1, 1, 1]" "[12, 32]" example_runtime 10 0]
    length_mismatch_unchecked [of example_act_fn_by_name "''relu''" "''ReLU''"
      "''ResNetBlock''" ResNetBlock "[1]" "[]" example_runtime 10 0]
  show ?thesis
    by (simp add: example_table_simps blocks_by_name_simps)
qed

subsection \<open>The network that is built\<close>

text \<open>
  Claim C2. For valid hyperparameters (known names, sequences of the same length,
  blocks whose modules the runtime constructs) the block loop returns exactly the flat
  sequence of the specification: stage by stage, position by position, with
  \<open>subsample = (j == 0 and i > 0)\<close>, \<open>c_in = c_hidden[i-1]\<close> if subsample else
  \<open>c_hidden[i]\<close>, and the block of the variant's constructor on
  \<open>(c_in, act_fn, subsample, c_hidden[i])\<close>, and it constructs the modules of these blocks
  and no other. With at least one stage (the builder reads \<open>c_hidden[0]\<close> for the input
  adapter) and a runtime that constructs and initialises the whole network, the
  constructor of the network returns a network with these blocks, their parameters
  initialised. The first block of stage 0, when there is one, is constructed with
  \<open>subsample = False\<close> on the width \<open>c_hidden[0]\<close>.
\<close>

theorem block_sequence:
  fixes act :: 'a
  assumes "tbl an = Some act" and "resnet_blocks_by_name bn = Some cls"
    and "length nb = length ch"
    and "accepts rt (concat (map block_modules (spec_blocks cls act nb ch)))"
  shows "create_blocks rt \<lparr>num_classes = ncls, num_blocks = nb, c_hidden = ch,
                           act_fn_name = an, act_fn = act, block_class = cls\<rparr> n
           = (Inr (spec_blocks cls act nb ch), n + count_modules (spec_blocks cls act nb ch))
     \<and> (ch \<noteq> []
          \<and> buildable rt \<lparr>num_classes = ncls, num_blocks = nb, c_hidden = ch,
                            act_fn_name = an, act_fn = act, block_class = cls\<rparr> \<longrightarrow>
          (\<exists>m k. ResNet_init rt tbl ncls nb ch an bn n = (Inr m, k)
             \<and> blocks m = map (init_block an) (spec_blocks cls act nb ch)))
     \<and> (ch \<noteq> [] \<and> 0 < nb ! 0 \<longrightarrow>
          hd (spec_blocks cls act nb ch) = block_init cls (ch ! 0) act False (ch ! 0))"
proof -
  let ?hp = "\<lparr>num_classes = ncls, num_blocks = nb, c_hidden = ch,
               act_fn_name = an, act_fn = act, block_class = cls\<rparr>"
  from assms(3) have fit: "stages_fit nb ch"
    by (simp add: stages_fit_shorter)
  have 1: "create_blocks rt ?hp n
           = (Inr (spec_blocks cls act nb ch), n + count_modules (spec_blocks cls act nb ch))"
    using create_blocks_ok [of ?hp rt n] fit assms(4) by simp
  have 2: "\<exists>m k. ResNet_init rt tbl ncls nb ch an bn n = (Inr m, k)
            \<and> blocks m = map (init_block an) (spec_blocks cls act nb ch)"
    if "ch \<noteq> [] \<and> buildable rt ?hp"
  proof -
    from that have ne: "ch \<noteq> []" and b: "buildable rt ?hp" by simp_all
    show ?thesis
      by (simp add: ResNet_init_ok [of tbl an act bn cls, OF assms(1,2) ne fit b]
          blocks_init_network spec_network_def)
  qed
  have 3: "hd (spec_blocks cls act nb ch) = block_init cls (ch ! 0) act False (ch ! 0)"
    if "ch \<noteq> [] \<and> 0 < nb ! 0"
  proof -
    from that assms(3) have "nb \<noteq> []" and "0 < nb ! 0" by auto
    then show ?thesis by (rule hd_spec_blocks)
  qed
  from 1 2 3 show ?thesis by blast
qed

theorem block_sequence_witness:
  "create_blocks example_runtime
         \<lparr>num_classes = 10, num_blocks = [1, 2], c_hidden = [12, 32],
          act_fn_name = ''relu'', act_fn = ''ReLU'', block_class = ResNetBlock\<rparr> 0
     = (Inr [ResNetBlock_init 12 ''ReLU'' False 12,
             ResNetBlock_init 12 ''ReLU'' True 32,
             ResNetBlock_init 32 ''ReLU'' False 32], 19)
   \<and> (\<exists>m k. ResNet_init example_runtime example_act_fn_by_name 10 [1, 2] [12, 32] ''relu''
                ''ResNetBlock'' 0 = (Inr m, k)
          \<and> blocks m = map (init_block ''relu'')
                [ResNetBlock_init 12 ''ReLU'' False 12,
                 ResNetBlock_init 12 ''ReLU'' True 32,
                 ResNetBlock_init 32 ''ReLU'' False 32])
   \<and> hd (spec_blocks ResNetBlock ''ReLU'' [1, 2] [12, 32]) = ResNetBlock_init 12 ''ReLU'' False 12"
proof -
  have sb: "spec_blocks ResNetBlock ''ReLU'' [1, 2] [12, 32] =
      [ResNetBlock_init 12 ''ReLU'' False 12,
       ResNetBlock_init 12 ''ReLU'' True 32,
       ResNetBlock_init 32 ''ReLU'' False 32]"
    by (simp add: stages_from_spec_blocks [symmetric] spec_stage_def spec_block_def
        upt_conv_Cons)
  have a: "accepts (example_runtime :: string runtime)
      (concat (map block_modules (spec_blocks ResNetBlock ''ReLU'' [1, 2] [12, 32])))"
    by code_simp
  have b: "buildable (example_runtime :: string runtime)
      \<lparr>num_classes = 10, num_blocks = [1, 2], c_hidden = [12, 32],
        act_fn_name = ''relu'', act_fn = ''ReLU'', block_class = ResNetBlock\<rparr>"
    by code_simp
  have k: "count_modules (spec_blocks ResNetBlock ''ReLU'' [1, 2] [12, 32]) = 19"
    by code_simp
  from block_sequence [of example_act_fn_by_name "''relu''" "''ReLU''" "''ResNetBlock''"
      ResNetBlock "[1, 2]" "[12, 32]" example_runtime 10 0] a b
  show ?thesis
    by (simp add: example_table_simps blocks_by_name_simps k) (simp add: sb)
qed

text \<open>
  Claim C6. For valid hyperparameters (known names, sequences of the same length, at
  least one stage, a network that the runtime constructs and initialises) the input
  adapter is one 3x3 convolution without bias from 3 channels to \<open>c_hidden[0]\<close>, alone
  when the block class is \<^verbatim>\<open>PreActResNetBlock\<close>, and followed by a normalisation and an
  activation otherwise; the network that the constructor returns has this adapter, its
  parameters initialised.
\<close>

theorem input_adapter:
  fixes act :: 'a
  assumes "tbl an = Some act" and "resnet_blocks_by_name bn = Some cls"
    and "length nb = length ch" and "ch \<noteq> []"
    and "buildable rt \<lparr>num_classes = ncls, num_blocks = nb, c_hidden = ch,
                        act_fn_name = an, act_fn = act, block_class = cls\<rparr>"
  shows "create_input_net rt \<lparr>num_classes = ncls, num_blocks = nb, c_hidden = ch,
                              act_fn_name = an, act_fn = act, block_class = cls\<rparr> n
           = (Inr (if cls = PreActResNetBlock
                   then [Conv2d 3 (ch ! 0) 3 1 1 False Default]
                   else [Conv2d 3 (ch ! 0) 3 1 1 False Default,
                         BatchNorm2d (ch ! 0) Default Default,
                         Activation act]),
              n + (if cls = PreActResNetBlock then 1 else 3))
     \<and> (\<exists>m k. ResNet_init rt tbl ncls nb ch an bn n = (Inr m, k)
            \<and> input_net m =
                (if cls = PreActResNetBlock
                 then [Conv2d 3 (ch ! 0) 3 1 1 False [KaimingNormal ''fan_out'' an]]
                 else [Conv2d 3 (ch ! 0) 3 1 1 False [KaimingNormal ''fan_out'' an],
                       BatchNorm2d (ch ! 0) [Constant 1] [Constant 0],
                       Activation act]))"
proof -
  let ?hp = "\<lparr>num_classes = ncls, num_blocks = nb, c_hidden = ch,
               act_fn_name = an, act_fn = act, block_class = cls\<rparr>"
  from assms(3) have fit: "stages_fit nb ch" by (simp add: stages_fit_shorter)
  from assms(5) have a: "accepts rt (spec_input_net cls act (ch ! 0))"
    by (simp add: buildable_def modules_spec_network accepts_simps)
  have 1: "create_input_net rt ?hp n
           = (Inr (if cls = PreActResNetBlock
                   then [Conv2d 3 (ch ! 0) 3 1 1 False Default]
                   else [Conv2d 3 (ch ! 0) 3 1 1 False Default,
                         BatchNorm2d (ch ! 0) Default Default,
                         Activation act]),
              n + (if cls = PreActResNetBlock then 1 else 3))"
    using create_input_net_ok [of ?hp rt n] assms(4) a by (simp add: spec_input_net_def)
  have 2: "\<exists>m k. ResNet_init rt tbl ncls nb ch an bn n = (Inr m, k)
            \<and> input_net m =
                (if cls = PreActResNetBlock
                 then [Conv2d 3 (ch ! 0) 3 1 1 False [KaimingNormal ''fan_out'' an]]
                 else [Conv2d 3 (ch ! 0) 3 1 1 False [KaimingNormal ''fan_out'' an],
                       BatchNorm2d (ch ! 0) [Constant 1] [Constant 0],
                       Activation act])"
    by (simp add: ResNet_init_ok [of tbl an act bn cls, OF assms(1,2,4) fit assms(5)]
        input_net_init_network spec_network_def spec_input_net_def)
  from 1 2 show ?thesis by (intro conjI)
qed

theorem input_adapter_witness:
  "create_input_net example_runtime
         \<lparr>num_classes = 10, num_blocks = [1, 1], c_hidden = [12, 32],
          act_fn_name = ''relu'', act_fn = ''ReLU'', block_class = PreActResNetBlock\<rparr> 0
     = (Inr [Conv2d 3 12 3 1 1 False Default], 1)
   \<and> create_input_net example_runtime
         \<lparr>num_classes = 10, num_blocks = [1, 1], c_hidden = [12, 32],
          act_fn_name = ''relu'', act_fn = ''ReLU'', block_class = ResNetBlock\<rparr> 0
     = (Inr [Conv2d 3 12 3 1 1 False Default, BatchNorm2d 12 Default Default,
             Activation ''ReLU''], 3)
   \<and> (\<exists>m k. ResNet_init example_runtime example_act_fn_by_name 10 [1, 1] [12, 32] ''relu''
                ''ResNetBlock'' 0 = (Inr m, k)
          \<and> input_net m = [Conv2d 3 12 3 1 1 False [KaimingNormal ''fan_out'' ''relu''],
                           BatchNorm2d 12 [Constant 1] [Constant 0],
                           Activation ''ReLU''])"
proof -
  have b1: "buildable (example_runtime :: string runtime)
      \<lparr>num_classes = 10, num_blocks = [1, 1], c_hidden = [12, 32],
        act_fn_name = ''relu'', act_fn = ''ReLU'', block_class = PreActResNetBlock\<rparr>"
    by code_simp
  have b2: "buildable (example_runtime :: string runtime)
      \<lparr>num_classes = 10, num_blocks = [1, 1], c_hidden = [12, 32],
        act_fn_name = ''relu'', act_fn = ''ReLU'', block_class = ResNetBlock\<rparr>"
    by code_simp
  from b1 b2
    input_adapter [of example_act_fn_by_name "''relu''" "''ReLU''" "''PreActResNetBlock''"
      PreActResNetBlock "[1, 1]" "[12, 32]" example_runtime 10 0]
    input_adapter [of example_act_fn_by_name "''relu''" "''ReLU''" "''ResNetBlock''"
      ResNetBlock "[1, 1]" "[12, 32]" example_runtime 10 0]
  show ?thesis
    by (simp add: example_table_simps blocks_by_name_simps)
qed

text \<open>
  Claim C7. When the constructor returns a network, every convolution in it has had
  exactly one initialiser call on its weight, Kaiming-normal in fan-out mode with the
  configured activation name as nonlinearity, and every normalisation layer exactly one
  call on its scale, with 1, and one on its shift, with 0. The network returned is the
  one that \<^verbatim>\<open>_create_network\<close> made, all of whose modules were fresh, after the one pass
  of \<^verbatim>\<open>_init_params\<close> over each of its modules.
\<close>

theorem parameters_initialised:
  assumes "ResNet_init rt tbl ncls nb ch an bn n = (Inr m, n')"
  shows "(\<forall>l \<in> set (modules m). initialised an l)
     \<and> (\<exists>act cls m0.
           tbl an = Some act \<and> resnet_blocks_by_name bn = Some cls
           \<and> create_network rt \<lparr>num_classes = ncls, num_blocks = nb, c_hidden = ch,
                                  act_fn_name = an, act_fn = act, block_class = cls\<rparr> n
               = (Inr m0, n')
           \<and> (\<forall>l \<in> set (modules m0). fresh l)
           \<and> init_params rt m0 = Inr m
           \<and> m = init_network an m0
           \<and> modules m = map (init_layer an) (modules m0))"
proof -
  from assms have known: "bn \<in> dom resnet_blocks_by_name"
    by (auto simp add: ResNet_init_def lift_apply split: if_splits)
  then obtain cls where cls: "resnet_blocks_by_name bn = Some cls" by blast
  have "tbl an \<noteq> None"
  proof
    assume "tbl an = None"
    with assms known show False
      by (simp add: ResNet_init_def lookup_def lift_apply seq_apply)
  qed
  then obtain act where act: "tbl an = Some act" by blast
  let ?hp = "\<lparr>num_classes = ncls, num_blocks = nb, c_hidden = ch,
               act_fn_name = an, act_fn = act, block_class = cls\<rparr>"
  from assms obtain m0 where m0: "create_network rt ?hp n = (Inr m0, n')"
    and ip: "init_params rt m0 = Inr m"
    by (auto simp add: ResNet_init_known [of tbl an act bn cls, OF act cls]
        split: prod.splits sum.splits)
  from create_network_returns [OF m0] have nm: "act_fn_name (hparams m0) = an"
    and fr: "list_all fresh (modules m0)" by simp_all
  from init_params_returns [OF ip] nm have m: "m = init_network an m0" by simp
  have mods: "modules m = map (init_layer an) (modules m0)"
    by (simp add: m modules_init_network)
  from fr have fr': "\<forall>l \<in> set (modules m0). fresh l"
    by (simp add: list_all_iff)
  then have "\<forall>l \<in> set (modules m). initialised an l"
    by (simp add: mods init_layer_initialised)
  with act cls m0 fr' ip m mods show ?thesis by blast
qed

theorem parameters_initialised_witness:
  "ResNet_init example_runtime example_act_fn_by_name 10 [1] [4] ''relu'' ''ResNetBlock'' 0 =
     (Inr \<lparr>hparams = \<lparr>num_classes = 10, num_blocks = [1], c_hidden = [4],
                         act_fn_name = ''relu'', act_fn = ''ReLU'', block_class = ResNetBlock\<rparr>,
            input_net = [Conv2d 3 4 3 1 1 False [KaimingNormal ''fan_out'' ''relu''],
                         BatchNorm2d 4 [Constant 1] [Constant 0],
                         Activation ''ReLU''],
            blocks = [ResNetBlockObj
                        [Conv2d 4 4 3 1 1 False [KaimingNormal ''fan_out'' ''relu''],
                         BatchNorm2d 4 [Constant 1] [Constant 0],
                         Activation ''ReLU'',
                         Conv2d 4 4 3 1 1 False [KaimingNormal ''fan_out'' ''relu''],
                         BatchNorm2d 4 [Constant 1] [Constant 0]]
                        None
                        (Activation ''ReLU'')],
            output_net = [AdaptiveAvgPool2d 1 1, Flatten, Linear 4 10]\<rparr>, 12)
   \<and> list_all (initialised ''relu'') (modules
         \<lparr>hparams = \<lparr>num_classes = 10, num_blocks = [1], c_hidden = [4],
                         act_fn_name = ''relu'', act_fn = ''ReLU'', block_class = ResNetBlock\<rparr>,
            input_net = [Conv2d 3 4 3 1 1 False [KaimingNormal ''fan_out'' ''relu''],
                         BatchNorm2d 4 [Constant 1] [Constant 0],
                         Activation ''ReLU''],
            blocks = [ResNetBlockObj
                        [Conv2d 4 4 3 1 1 False [KaimingNormal ''fan_out'' ''relu''],
                         BatchNorm2d 4 [Constant 1] [Constant 0],
                         Activation ''ReLU'',
                         Conv2d 4 4 3 1 1 False [KaimingNormal ''fan_out'' ''relu''],
                         BatchNorm2d 4 [Constant 1] [Constant 0]]
                        None
                        (Activation ''ReLU'')],
            output_net = [AdaptiveAvgPool2d 1 1, Flatten, Linear 4 10]\<rparr>)"
  (is "?run = (Inr ?m, ?k) \<and> ?P")
proof -
  have run: "?run = (Inr ?m, ?k)"
    by code_simp
  from parameters_initialised [OF run] have "?P" unfolding list_all_iff by blast
  with run show ?thesis by blast
qed

text \<open>
  Claim C10 as it is stated does not hold of the code: with sequences of the same
  length, a stage without blocks and known names, the constructor can still raise. With
  the activation name \<^verbatim>\<open>gelu\<close>, a key of the table, the name is passed as the nonlinearity
  to the Kaiming initialiser, which does not have it in its table of gains: the call
  fails with \<^verbatim>\<open>ValueError\<close> after the twelve modules have been constructed.
\<close>

theorem empty_stage_counterexample:
  "length [1, 0 :: int] = length [12, 32 :: int]
   \<and> [1, 0 :: int] ! 1 = 0
   \<and> example_act_fn_by_name ''gelu'' = Some ''GELU''
   \<and> resnet_blocks_by_name ''ResNetBlock'' = Some ResNetBlock
   \<and> ResNet_init example_runtime example_act_fn_by_name 10 [1, 0] [12, 32] ''gelu''
        ''ResNetBlock'' 0 = (Inl ValueError, 12)"
  by code_simp

text \<open>
  Claim C10, as amended. With known names and sequences of the same length, a stage
  \<open>i\<close> with \<open>num_blocks[i] = 0\<close> is not rejected: the inner loop of that stage returns
  the blocks it was given, unchanged and without constructing anything. When the runtime
  constructs and initialises the modules of the network, the constructor raises no error
  and returns a network whose blocks are those of the stages before \<open>i\<close> followed by
  those of the stages after \<open>i\<close>.
\<close>

theorem empty_stage_skipped:
  fixes act :: 'a
  assumes "tbl an = Some act" and "resnet_blocks_by_name bn = Some cls"
    and "length nb = length ch" and "i < length nb" and "nb ! i = 0"
  shows "stage_step rt \<lparr>num_classes = ncls, num_blocks = nb, c_hidden = ch,
                         act_fn_name = an, act_fn = act, block_class = cls\<rparr>
            (int i, nb ! i) bs k0 = (Inr bs, k0)
     \<and> (buildable rt \<lparr>num_classes = ncls, num_blocks = nb, c_hidden = ch,
                         act_fn_name = an, act_fn = act, block_class = cls\<rparr> \<longrightarrow>
         (\<exists>m k. ResNet_init rt tbl ncls nb ch an bn n = (Inr m, k)
            \<and> blocks m = map (init_block an)
                 (concat (map (\<lambda>s. spec_stage cls act ch s (nb ! s))
                            ([0..<i] @ [Suc i..<length nb])))))"
proof -
  let ?hp = "\<lparr>num_classes = ncls, num_blocks = nb, c_hidden = ch,
               act_fn_name = an, act_fn = act, block_class = cls\<rparr>"
  from assms(3) have fit: "stages_fit nb ch" by (simp add: stages_fit_shorter)
  from assms(3,4) have ne: "ch \<noteq> []" by auto
  have 1: "stage_step rt ?hp (int i, nb ! i) bs k0 = (Inr bs, k0)"
    by (simp add: stage_step_def assms(5) range_py_def return_apply)
  have 2: "\<exists>m k. ResNet_init rt tbl ncls nb ch an bn n = (Inr m, k)
            \<and> blocks m = map (init_block an)
                 (concat (map (\<lambda>s. spec_stage cls act ch s (nb ! s))
                            ([0..<i] @ [Suc i..<length nb])))"
    if b: "buildable rt ?hp"
    by (simp add: ResNet_init_ok [of tbl an act bn cls, OF assms(1,2) ne fit b]
        blocks_init_network spec_network_def spec_blocks_skip [OF assms(4,5)])
  from 1 2 show ?thesis by blast
qed

theorem empty_stage_skipped_witness:
  "(\<exists>m k. ResNet_init example_runtime example_act_fn_by_name 10 [1, 0, 1] [12, 32, 64] ''relu''
            ''PreActResNetBlock'' 0 = (Inr m, k)
        \<and> blocks m = map (init_block ''relu'')
             [PreActResNetBlock_init 12 ''ReLU'' False 12,
              PreActResNetBlock_init 32 ''ReLU'' True 64])"
proof -
  have b: "buildable (example_runtime :: string runtime)
      \<lparr>num_classes = 10, num_blocks = [1, 0, 1], c_hidden = [12, 32, 64],
        act_fn_name = ''relu'', act_fn = ''ReLU'', block_class = PreActResNetBlock\<rparr>"
    by code_simp
  from b empty_stage_skipped [of example_act_fn_by_name "''relu''" "''ReLU''"
      "''PreActResNetBlock''" PreActResNetBlock "[1, 0, 1]" "[12, 32, 64]" 1
      example_runtime 10 "[]" 0 0]
  show ?thesis
    by (simp add: example_table_simps blocks_by_name_simps spec_stage_def spec_block_def)
qed

end
